theory Spec2Isabelle
  imports Main
begin

section \<open>The websocket dispatch server of kontainer.io\<close>

text \<open>
  The Go package \<^verbatim>\<open>websocket\<close> holds a \<^verbatim>\<open>Server\<close> with a map of registered
  services and a per-connection loop \<^verbatim>\<open>handleConnection\<close>. The loop reads a message,
  decodes it with the injected \<^verbatim>\<open>ProtocolHandler\<close>, looks the service up, asks it for
  the handler of the method, calls the handler, encodes the result and writes it back.

  Go values are modelled as follows.
  \<^item> A byte is a \<^typ>\<open>char\<close> (256 values), \<^verbatim>\<open>[]byte\<close> and \<^verbatim>\<open>string\<close> are \<^typ>\<open>string\<close>,
    \<^verbatim>\<open>[3]byte\<close> is a triple of bytes.
  \<^item> A Go \<^verbatim>\<open>error\<close> is identified with the text \<^verbatim>\<open>err.Error()\<close> returns; a function
    returning \<^verbatim>\<open>(x, err)\<close> returns a sum, \<open>Inl\<close> the error.
  \<^item> \<^verbatim>\<open>interface{}\<close> payloads are the type variable \<open>'d\<close>.
  \<^item> A pointer that may be nil is an \<open>option\<close>; a map that may be nil is an \<open>option\<close>
    of a partial function. Reading a nil map gives the zero value, writing to it panics.
  \<^item> Every call the loop makes on the connection, the codec, a handler and the logger
    is appended to a trace, so that what was called, in which order and with which
    arguments can be stated.
\<close>

subsection \<open>Data\<close>

type_synonym ident = "char \<times> char \<times> char"

text \<open>\<^verbatim>\<open>fmt\<close> prints a byte array under \<^verbatim>\<open>%s\<close> as the bytes themselves.\<close>

definition ident_bytes :: "ident \<Rightarrow> string" where
  "ident_bytes i = (case i of (a, b, c) \<Rightarrow> [a, b, c])"

datatype panic = NilMapAssignment | NilDereference

type_synonym 'd Handler = "'d \<Rightarrow> string + 'd"

text \<open>
  Modelled from the spec: the declaration of \<^verbatim>\<open>ServiceDescription\<close> is not among the
  sources. \<^verbatim>\<open>RegisterService\<close> reads its field \<^verbatim>\<open>protocolName\<close>; the spec gives a
  description "a mapping from MethodIdentifier to a handler callable", and a handler
  the shape \<^verbatim>\<open>handler(payload) -> (result, error)\<close>.
\<close>

record 'd ServiceDescription =
  protocolName :: ident
  endpoints :: "ident \<rightharpoonup> 'd Handler"

record 'd ProtocolHandler =
  Decode :: "string \<Rightarrow> string + (ident \<times> ident \<times> 'd)"
  Encode :: "ident \<Rightarrow> ident \<Rightarrow> 'd \<Rightarrow> string + string"

text \<open>
  \<^verbatim>\<open>log.Logger\<close> is an interface of go-kit; the field of the server may hold nil
  (None). A logger that is there takes the call of \<^verbatim>\<open>Log\<close>, which goes to the trace;
  the call on nil panics.
\<close>

datatype Logger = Logger

record 'd Server =
  protocolHandler :: "'d ProtocolHandler"
  logger :: "Logger option"
  services :: "(ident \<rightharpoonup> 'd ServiceDescription) option"

text \<open>\<^verbatim>\<open>m[k]\<close> on a map that may be nil: the value, or nil when the key is absent.\<close>

definition index_map :: "('k \<rightharpoonup> 'v) option \<Rightarrow> 'k \<Rightarrow> 'v option" where
  "index_map m k = (case m of None \<Rightarrow> None | Some f \<Rightarrow> f k)"

subsection \<open>Construction and registration\<close>

text \<open>\<^verbatim>\<open>NewServer\<close> stores the codec and the logger as given and leaves \<^verbatim>\<open>services\<close> at
  its zero value, the nil map.\<close>

definition NewServer :: "'d ProtocolHandler \<Rightarrow> Logger option \<Rightarrow> 'd Server" where
  "NewServer ph lg = \<lparr>protocolHandler = ph, logger = lg, services = None\<rparr>"

text \<open>
  \<^verbatim>\<open>RegisterService\<close> takes a pointer: on nil, reading \<^verbatim>\<open>sd.protocolName\<close> panics.
  The result is the returned error (None for nil) with the server afterwards.
\<close>

fun RegisterService ::
  "'d Server \<Rightarrow> 'd ServiceDescription option \<Rightarrow> panic + (string option \<times> 'd Server)" where
  "RegisterService s None = Inl NilDereference"
| "RegisterService s (Some sd) =
     (case index_map (services s) (protocolName sd) of
        Some _ \<Rightarrow>
          Inr (Some (''Service Endpoint '' @ ident_bytes (protocolName sd) @ '' already exists''), s)
      | None \<Rightarrow>
          (case services s of
             None \<Rightarrow> Inl NilMapAssignment
           | Some m \<Rightarrow> Inr (None, s\<lparr>services := Some (m(protocolName sd \<mapsto> sd))\<rparr>)))"

text \<open>
  Modelled from the spec: the method \<^verbatim>\<open>EndpointHandler\<close> of \<^verbatim>\<open>*ServiceDescription\<close> is
  not among the sources. The loop calls it on the entry of the services map for the
  decoded service, which is the nil pointer when the service is absent; Go makes the
  call on a nil pointer receiver. The spec: resolution "fails with UnknownServiceError
  if the service identifier is absent, or UnknownMethodError if the service exists but
  the method identifier is not registered under it", and otherwise returns the handler
  registered. The texts of the two errors are not given; the model uses the spec's
  names for them.
\<close>

definition UnknownServiceError :: string where
  "UnknownServiceError = ''UnknownServiceError''"

definition UnknownMethodError :: string where
  "UnknownMethodError = ''UnknownMethodError''"

fun EndpointHandler :: "'d ServiceDescription option \<Rightarrow> ident \<Rightarrow> string + 'd Handler" where
  "EndpointHandler None me = Inl UnknownServiceError"
| "EndpointHandler (Some sd) me =
     (case endpoints sd me of
        None \<Rightarrow> Inl UnknownMethodError
      | Some h \<Rightarrow> Inr h)"

subsection \<open>The connection\<close>

text \<open>
  The calls the loop makes, in order. A read carries what \<^verbatim>\<open>ReadMessage\<close> returned, a
  write the message type, the bytes and what \<^verbatim>\<open>WriteMessage\<close> returned.
\<close>

datatype 'd event =
    EvRead "string + (int \<times> string)"
  | EvDecode string
  | EvEndpointHandler ident ident
  | EvHandler ident ident 'd
  | EvEncode ident ident 'd
  | EvWrite int string "string option"
  | EvLog string
  | EvClose

text \<open>
  The connection as the loop sees it: \<open>wr\<close> scripts the results of the coming calls of
  \<^verbatim>\<open>WriteMessage\<close> (Some e: the write fails with e; once the script is used up, writes
  succeed), \<open>trace\<close> is what has been called so far.
\<close>

record 'd conn =
  wr :: "string option list"
  trace :: "'d event list"

definition record_ev :: "'d event \<Rightarrow> 'd conn \<Rightarrow> 'd conn" where
  "record_ev e c = c\<lparr>trace := trace c @ [e]\<rparr>"

definition write_result :: "'d conn \<Rightarrow> string option" where
  "write_result c = (case wr c of [] \<Rightarrow> None | r # _ \<Rightarrow> r)"

definition WriteMessage :: "int \<Rightarrow> string \<Rightarrow> 'd conn \<Rightarrow> string option \<times> 'd conn" where
  "WriteMessage mt data c =
     (write_result c, record_ev (EvWrite mt data (write_result c)) (c\<lparr>wr := tl (wr c)\<rparr>))"

datatype status = Reading | Closed | Panicked panic

text \<open>
  The five writes of the loop body have the same shape: write; on failure call
  \<^verbatim>\<open>s.logger.Log(err)\<close>, then \<^verbatim>\<open>conn.Close()\<close>, and return; otherwise go on with
  the next iteration. With a nil logger the call of \<^verbatim>\<open>Log\<close> panics, and the close
  is not reached.
\<close>

definition respond :: "'d Server \<Rightarrow> int \<Rightarrow> string \<Rightarrow> 'd conn \<Rightarrow> status \<times> 'd conn" where
  "respond s mt data c =
     (case WriteMessage mt data c of
        (Some e, c') \<Rightarrow>
          (case logger s of
             None \<Rightarrow> (Panicked NilDereference, c')
           | Some l \<Rightarrow> (Closed, record_ev EvClose (record_ev (EvLog e) c')))
      | (None, c') \<Rightarrow> (Reading, c'))"

text \<open>
  One iteration of the loop of \<^verbatim>\<open>handleConnection\<close>, given what \<^verbatim>\<open>ReadMessage\<close>
  returns. The server is passed through: the loop holds a pointer to it.
\<close>

definition iteration ::
  "'d Server \<Rightarrow> string + (int \<times> string) \<Rightarrow> 'd conn \<Rightarrow> status \<times> 'd Server \<times> 'd conn" where
  "iteration s r c =
     (let c0 = record_ev (EvRead r) c in
      case r of
        Inl err \<Rightarrow> (Closed, s, record_ev EvClose c0)
      | Inr (messageType, request) \<Rightarrow>
          (let c1 = record_ev (EvDecode request) c0 in
           case Decode (protocolHandler s) request of
             Inl err \<Rightarrow> (case respond s messageType err c1 of (st, c') \<Rightarrow> (st, s, c'))
           | Inr (srv, me, data) \<Rightarrow>
               (let c2 = record_ev (EvEndpointHandler srv me) c1 in
                case EndpointHandler (index_map (services s) srv) me of
                  Inl err \<Rightarrow>
                    (case respond s messageType err c2 of (st, c') \<Rightarrow> (st, s, c'))
                | Inr handler \<Rightarrow>
                    (let c3 = record_ev (EvHandler srv me data) c2 in
                     case handler data of
                       Inl err \<Rightarrow>
                         (case respond s messageType err c3 of (st, c') \<Rightarrow> (st, s, c'))
                     | Inr res \<Rightarrow>
                         (let c4 = record_ev (EvEncode srv me res) c3 in
                          case Encode (protocolHandler s) srv me res of
                            Inl err \<Rightarrow>
                              (case respond s messageType err c4 of (st, c') \<Rightarrow> (st, s, c'))
                          | Inr response \<Rightarrow>
                              (case respond s messageType response c4 of
                                 (st, c') \<Rightarrow> (st, s, c')))))))"

text \<open>
  The loop, over the results of the successive calls of \<^verbatim>\<open>ReadMessage\<close>. When they
  are used up the session is blocked in the next read: it is still \<open>Reading\<close>.
\<close>

fun handleConnection ::
  "'d Server \<Rightarrow> (string + (int \<times> string)) list \<Rightarrow> 'd conn \<Rightarrow> status \<times> 'd Server \<times> 'd conn" where
  "handleConnection s [] c = (Reading, s, c)"
| "handleConnection s (r # rs) c =
     (case iteration s r c of
        (Reading, s', c') \<Rightarrow> handleConnection s' rs c'
      | (st, s', c') \<Rightarrow> (st, s', c'))"

subsection \<open>What the claims are stated with\<close>

text \<open>A write that the transport refused.\<close>

fun failed_write :: "'d event \<Rightarrow> bool" where
  "failed_write (EvWrite mt data (Some e)) = True"
| "failed_write ev = False"

text \<open>
  A trace that ends with a refused write, the log of its error and the close, and has
  no refused write before: nothing is read or written after the refused write.
\<close>

definition closed_by_failed_write :: "'d event list \<Rightarrow> bool" where
  "closed_by_failed_write t =
     (case rev t of
        EvClose # EvLog e # EvWrite mt data (Some e') # before \<Rightarrow>
          e = e' \<and> \<not> list_ex failed_write before
      | _ \<Rightarrow> False)"

text \<open>
  Every write in the trace carries the message type of the last message read before
  it; \<open>cur\<close> is that type, None when nothing has been read or the last read failed.
\<close>

fun writes_follow_read :: "int option \<Rightarrow> 'd event list \<Rightarrow> bool" where
  "writes_follow_read cur [] = True"
| "writes_follow_read cur (EvRead (Inr (mt, request)) # evs) = writes_follow_read (Some mt) evs"
| "writes_follow_read cur (EvRead (Inl err) # evs) = writes_follow_read None evs"
| "writes_follow_read cur (EvWrite mt data r # evs) =
     (cur = Some mt \<and> writes_follow_read cur evs)"
| "writes_follow_read cur (ev # evs) = writes_follow_read cur evs"

subsection \<open>A codec and a service for the examples\<close>

text \<open>
  The codec is injected and none is among the sources. The examples use one that takes
  the first three bytes of a message as the service, the next three as the method and
  the rest as the payload, and that refuses to encode an empty result.
\<close>

definition frameCodec :: "string ProtocolHandler" where
  "frameCodec =
     \<lparr>Decode = (\<lambda>m. case m of
                  a # b # c # d # e # f # p \<Rightarrow> Inr ((a, b, c), (d, e, f), p)
                | _ \<Rightarrow> Inl ''short message''),
      Encode = (\<lambda>srv me res.
                  if res = [] then Inl ''empty result''
                  else Inr (ident_bytes srv @ ident_bytes me @ res))\<rparr>"

text \<open>Service 01 00 00: method 00 00 01 echoes its input, method 00 00 02 fails.\<close>

definition echoService :: "string ServiceDescription" where
  "echoService =
     \<lparr>protocolName = (CHR 0x01, CHR 0x00, CHR 0x00),
      endpoints = [(CHR 0x00, CHR 0x00, CHR 0x01) \<mapsto> (\<lambda>p. Inr p),
                   (CHR 0x00, CHR 0x00, CHR 0x02) \<mapsto> (\<lambda>p. Inl ''handler failed'')]\<rparr>"

text \<open>A server with a logger and the echo service in its map.\<close>

definition echoServer :: "string Server" where
  "echoServer =
     \<lparr>protocolHandler = frameCodec, logger = Some Logger,
      services = Some [(CHR 0x01, CHR 0x00, CHR 0x00) \<mapsto> echoService]\<rparr>"

definition frame :: "char \<Rightarrow> char \<Rightarrow> string \<Rightarrow> string" where
  "frame srv me p = [srv, CHR 0x00, CHR 0x00, CHR 0x00, CHR 0x00, me] @ p"

definition idle :: "string conn" where
  "idle = \<lparr>wr = [], trace = []\<rparr>"

definition broken :: "string conn" where
  "broken = \<lparr>wr = [Some ''broken pipe''], trace = []\<rparr>"

section \<open>Properties\<close>

subsection \<open>Auxiliary facts\<close>

lemma write_result_trace [simp]: "write_result (c\<lparr>trace := t\<rparr>) = write_result c"
  by (simp add: write_result_def)

lemma respond_eq:
  "respond s mt data c =
     (case write_result c of
        None \<Rightarrow> (Reading, c\<lparr>wr := tl (wr c), trace := trace c @ [EvWrite mt data None]\<rparr>)
      | Some e \<Rightarrow>
          (case logger s of
             None \<Rightarrow>
               (Panicked NilDereference,
                c\<lparr>wr := tl (wr c), trace := trace c @ [EvWrite mt data (Some e)]\<rparr>)
           | Some l \<Rightarrow>
               (Closed, c\<lparr>wr := tl (wr c),
                          trace := trace c @ [EvWrite mt data (Some e), EvLog e, EvClose]\<rparr>)))"
  by (simp add: respond_def WriteMessage_def record_ev_def split: option.split)

text \<open>
  A description whose identifier is in the map is refused, and the server stays as it
  was, whatever the map.
\<close>

lemma RegisterService_existing:
  assumes "index_map (services s) (protocolName sd) = Some old"
  shows "RegisterService s (Some sd) =
     Inr (Some (''Service Endpoint '' @ ident_bytes (protocolName sd) @ '' already exists''), s)"
  using assms by simp

text \<open>Whatever error \<^verbatim>\<open>EndpointHandler\<close> returns is what the loop reports.\<close>

lemma iteration_resolution_error:
  assumes "Decode (protocolHandler s) request = Inr (srv, me, p)"
    and "EndpointHandler (index_map (services s) srv) me = Inl e"
  shows "iteration s (Inr (mt, request)) c =
     ((case write_result c of
        None \<Rightarrow> Reading
      | Some w \<Rightarrow> (case logger s of None \<Rightarrow> Panicked NilDereference | Some l \<Rightarrow> Closed)),
      s,
      c\<lparr>wr := tl (wr c),
        trace := trace c @
          [EvRead (Inr (mt, request)),
           EvDecode request,
           EvEndpointHandler srv me,
           EvWrite mt e (write_result c)] @
          (case write_result c of
             None \<Rightarrow> []
           | Some w \<Rightarrow> (case logger s of None \<Rightarrow> [] | Some l \<Rightarrow> [EvLog w, EvClose]))\<rparr>)
   \<and> (write_result c = None \<longrightarrow>
        handleConnection s (Inr (mt, request) # rs) c =
        handleConnection s rs
          (c\<lparr>wr := tl (wr c),
             trace := trace c @
               [EvRead (Inr (mt, request)),
              EvDecode request,
              EvEndpointHandler srv me,
                EvWrite mt e None]\<rparr>))"
  using assms
  by (simp add: iteration_def Let_def respond_eq record_ev_def
      split: option.split del: EndpointHandler.simps)

lemma iteration_server: "fst (snd (iteration s r c)) = s"
  by (simp add: iteration_def Let_def split: sum.split prod.split)

lemma handleConnection_server: "fst (snd (handleConnection s rs c)) = s"
proof (induction rs arbitrary: c)
  case Nil
  show ?case by simp
next
  case (Cons r rs)
  obtain st s' c' where it: "iteration s r c = (st, s', c')"
    by (cases "iteration s r c") auto
  have "s' = s" using iteration_server [of s r c] it by simp
  with it Cons show ?case by (cases st) simp_all
qed

lemma iteration_failed_write:
  assumes "logger s = Some l" and "\<not> list_ex failed_write (trace c)"
  shows "(fst (iteration s r c) = Reading \<longrightarrow>
            \<not> list_ex failed_write (trace (snd (snd (iteration s r c))))) \<and>
         (list_ex failed_write (trace (snd (snd (iteration s r c)))) \<longrightarrow>
            fst (iteration s r c) = Closed \<and>
            closed_by_failed_write (trace (snd (snd (iteration s r c)))))"
  using assms
  by (simp add: iteration_def Let_def respond_eq record_ev_def closed_by_failed_write_def
      split: sum.split prod.split option.split)

lemma handleConnection_failed_write:
  assumes "logger s = Some l"
    and "\<not> list_ex failed_write (trace c)"
    and "list_ex failed_write (trace (snd (snd (handleConnection s rs c))))"
  shows "fst (handleConnection s rs c) = Closed \<and>
         closed_by_failed_write (trace (snd (snd (handleConnection s rs c))))"
  using assms(2,3)
proof (induction rs arbitrary: c)
  case Nil
  then show ?case by simp
next
  case (Cons r rs)
  obtain st s' c' where it': "iteration s r c = (st, s', c')"
    by (cases "iteration s r c") auto
  have "s' = s" using iteration_server [of s r c] it' by simp
  with it' have it: "iteration s r c = (st, s, c')" by simp
  note step = iteration_failed_write [OF assms(1) Cons.prems(1), of r]
  show ?case
  proof (cases "st = Reading")
    case True
    with it step have clean: "\<not> list_ex failed_write (trace c')" by simp
    from True it have eq: "handleConnection s (r # rs) c = handleConnection s rs c'" by simp
    from Cons.IH [OF clean] Cons.prems(2) eq show ?thesis by simp
  next
    case False
    with it have eq: "handleConnection s (r # rs) c = (st, s, c')"
      by (cases st) simp_all
    with Cons.prems(2) it step show ?thesis by simp
  qed
qed

lemma writes_follow_read_append_read:
  "writes_follow_read cur (evs @ EvRead r # evs') =
     (writes_follow_read cur evs \<and> writes_follow_read None (EvRead r # evs'))"
proof (induction cur evs rule: writes_follow_read.induct)
  case (1 cur)
  show ?case by (cases r) auto
qed simp_all

lemma iteration_writes_follow_read:
  assumes "writes_follow_read cur (trace c)"
  shows "writes_follow_read cur (trace (snd (snd (iteration s r c))))"
proof -
  have "\<exists>evs. trace (snd (snd (iteration s r c))) = trace c @ EvRead r # evs \<and>
          writes_follow_read None (EvRead r # evs)"
    by (simp add: iteration_def Let_def respond_eq record_ev_def
        split: sum.split prod.split option.split)
  with assms show ?thesis by (auto simp: writes_follow_read_append_read)
qed

lemma handleConnection_writes_follow_read:
  assumes "writes_follow_read cur (trace c)"
  shows "writes_follow_read cur (trace (snd (snd (handleConnection s rs c))))"
  using assms
proof (induction rs arbitrary: s c)
  case Nil
  then show ?case by simp
next
  case (Cons r rs)
  obtain st s' c' where it: "iteration s r c = (st, s', c')"
    by (cases "iteration s r c") auto
  have ok: "writes_follow_read cur (trace c')"
    using iteration_writes_follow_read [OF Cons.prems, of s r] it by simp
  show ?case
  proof (cases "st = Reading")
    case True
    with it Cons.IH [OF ok] show ?thesis by simp
  next
    case False
    with it ok show ?thesis by (cases st) simp_all
  qed
qed

subsection \<open>Registration\<close>

text \<open>
  C9: \<^verbatim>\<open>NewServer\<close> returns a server whose services map is nil, and the first
  \<^verbatim>\<open>RegisterService\<close> on it, whatever the description, reaches the assignment into
  the nil map and panics. So does \<^verbatim>\<open>RegisterService\<close> on any server whose map is nil:
  it succeeds only on a map made by other means.
\<close>

theorem NewServer_RegisterService_panics:
  "services (NewServer ph lg) = None \<and>
   RegisterService (NewServer ph lg) (Some sd) = Inl NilMapAssignment \<and>
   RegisterService (s\<lparr>services := None\<rparr>) (Some sd) = Inl NilMapAssignment"
  by (simp add: NewServer_def index_map_def)

text \<open>
  C2 at the server \<^verbatim>\<open>NewServer\<close> returns: the identifier of the echo service is
  absent, and \<^verbatim>\<open>RegisterService\<close> panics at the assignment instead of inserting the
  description and returning no error.
\<close>

theorem RegisterService_after_NewServer_panics:
  "index_map (services (NewServer frameCodec (Some Logger))) (protocolName echoService) = None \<and>
   RegisterService (NewServer frameCodec (Some Logger)) (Some echoService) =
     Inl NilMapAssignment"
  by (simp add: NewServer_def index_map_def)

subsection \<open>One message\<close>

text \<open>
  C1, as stated, on a connection that refuses the write: service 02 00 00 is not in
  the map of the echo server, the report of the resolution error is written, the
  write fails, and the session logs the failure and closes the connection instead of
  going back to reading.
\<close>

theorem resolution_failure_refused_write_counterexample:
  "index_map (services echoServer) (CHR 0x02, CHR 0x00, CHR 0x00) = None \<and>
   iteration echoServer (Inr (1, frame (CHR 0x02) (CHR 0x01) ''ping'')) broken =
     (Closed, echoServer,
      \<lparr>wr = [],
       trace = [EvRead (Inr (1, frame (CHR 0x02) (CHR 0x01) ''ping'')),
                EvDecode (frame (CHR 0x02) (CHR 0x01) ''ping''),
                EvEndpointHandler (CHR 0x02, CHR 0x00, CHR 0x00) (CHR 0x00, CHR 0x00, CHR 0x01),
                EvWrite 1 UnknownServiceError (Some ''broken pipe''),
                EvLog ''broken pipe'', EvClose]\<rparr>)"
  by (simp add: echoServer_def frameCodec_def frame_def broken_def index_map_def
      write_result_def iteration_def Let_def respond_eq record_ev_def)

text \<open>
  C1, amended: when the message decodes to a service that is not in the map, or to a
  service in the map and a method it does not have, the iteration makes one write, of
  the bytes of the resolution error with the message type read, and calls no handler
  and no \<^verbatim>\<open>Encode\<close>. If the transport takes the write, nothing is closed, the session
  is \<open>Reading\<close> and the loop goes on with the following messages. If it refuses the
  write, the session does not go back to reading: with a logger it logs the failure
  and closes, with a nil logger it panics at the call of \<^verbatim>\<open>Log\<close>.
\<close>

theorem resolution_failure_reported:
  assumes "Decode (protocolHandler s) request = Inr (srv, me, p)"
    and "(case index_map (services s) srv of
            None \<Rightarrow> True
          | Some sd \<Rightarrow> endpoints sd me = None)"
  shows "iteration s (Inr (mt, request)) c =
     ((case write_result c of
        None \<Rightarrow> Reading
      | Some w \<Rightarrow> (case logger s of None \<Rightarrow> Panicked NilDereference | Some l \<Rightarrow> Closed)),
      s,
      c\<lparr>wr := tl (wr c),
        trace := trace c @
          [EvRead (Inr (mt, request)),
           EvDecode request,
           EvEndpointHandler srv me,
           EvWrite mt (case index_map (services s) srv of
                        None \<Rightarrow> UnknownServiceError
                      | Some sd \<Rightarrow> UnknownMethodError) (write_result c)] @
          (case write_result c of
             None \<Rightarrow> []
           | Some w \<Rightarrow> (case logger s of None \<Rightarrow> [] | Some l \<Rightarrow> [EvLog w, EvClose]))\<rparr>)
   \<and> (write_result c = None \<longrightarrow>
        handleConnection s (Inr (mt, request) # rs) c =
        handleConnection s rs
          (c\<lparr>wr := tl (wr c),
             trace := trace c @
               [EvRead (Inr (mt, request)),
              EvDecode request,
              EvEndpointHandler srv me,
                EvWrite mt (case index_map (services s) srv of
                        None \<Rightarrow> UnknownServiceError
                      | Some sd \<Rightarrow> UnknownMethodError) None]\<rparr>))"
proof -
  have "EndpointHandler (index_map (services s) srv) me =
      Inl (case index_map (services s) srv of
             None \<Rightarrow> UnknownServiceError
           | Some sd \<Rightarrow> UnknownMethodError)"
    using assms(2) by (cases "index_map (services s) srv") simp_all
  from iteration_resolution_error [OF assms(1) this] show ?thesis .
qed

text \<open>The echo server, a message for service 02 00 00, which it does not have, and a
  message for method 00 00 03 of service 01 00 00, which that service does not have.\<close>

theorem resolution_failure_reported_witness:
  "iteration echoServer (Inr (1, frame (CHR 0x02) (CHR 0x01) ''ping'')) idle =
     (Reading, echoServer,
      \<lparr>wr = [],
       trace = [EvRead (Inr (1, frame (CHR 0x02) (CHR 0x01) ''ping'')),
                EvDecode (frame (CHR 0x02) (CHR 0x01) ''ping''),
                EvEndpointHandler (CHR 0x02, CHR 0x00, CHR 0x00) (CHR 0x00, CHR 0x00, CHR 0x01),
                EvWrite 1 UnknownServiceError None]\<rparr>) \<and>
   iteration echoServer (Inr (1, frame (CHR 0x01) (CHR 0x03) ''ping'')) idle =
     (Reading, echoServer,
      \<lparr>wr = [],
       trace = [EvRead (Inr (1, frame (CHR 0x01) (CHR 0x03) ''ping'')),
                EvDecode (frame (CHR 0x01) (CHR 0x03) ''ping''),
                EvEndpointHandler (CHR 0x01, CHR 0x00, CHR 0x00) (CHR 0x00, CHR 0x00, CHR 0x03),
                EvWrite 1 UnknownMethodError None]\<rparr>)"
proof -
  have d1: "Decode (protocolHandler echoServer) (frame (CHR 0x02) (CHR 0x01) ''ping'') =
      Inr ((CHR 0x02, CHR 0x00, CHR 0x00), (CHR 0x00, CHR 0x00, CHR 0x01), ''ping'')"
    by (simp add: echoServer_def frameCodec_def frame_def)
  have u1: "(case index_map (services echoServer) (CHR 0x02, CHR 0x00, CHR 0x00) of
               None \<Rightarrow> True
             | Some sd \<Rightarrow> endpoints sd (CHR 0x00, CHR 0x00, CHR 0x01) = None)"
    by (simp add: echoServer_def index_map_def)
  have d2: "Decode (protocolHandler echoServer) (frame (CHR 0x01) (CHR 0x03) ''ping'') =
      Inr ((CHR 0x01, CHR 0x00, CHR 0x00), (CHR 0x00, CHR 0x00, CHR 0x03), ''ping'')"
    by (simp add: echoServer_def frameCodec_def frame_def)
  have u2: "(case index_map (services echoServer) (CHR 0x01, CHR 0x00, CHR 0x00) of
               None \<Rightarrow> True
             | Some sd \<Rightarrow> endpoints sd (CHR 0x00, CHR 0x00, CHR 0x03) = None)"
    by (simp add: echoServer_def echoService_def index_map_def)
  show ?thesis
    using resolution_failure_reported [OF d1 u1, where mt = 1 and c = idle and rs = "[]"]
      resolution_failure_reported [OF d2 u2, where mt = 1 and c = idle and rs = "[]"]
    by (simp add: idle_def write_result_def echoServer_def index_map_def)
qed

text \<open>
  C3: when the message decodes to a (service, method) pair with payload \<open>p\<close>, the
  service is in the map and gives the handler \<open>h\<close> for the method, then \<open>h\<close>, and
  no other handler, is called, once, with \<open>p\<close>; when it
  returns \<open>res\<close> and the codec encodes (service, method, \<open>res\<close>) to \<open>response\<close>,
  the one write of the iteration is \<open>response\<close>, with the message type read. The
  session goes on reading if the transport takes the write; otherwise it logs the
  failure and closes, or panics at the call of \<^verbatim>\<open>Log\<close> when the logger is nil.
\<close>

theorem iteration_dispatch:
  assumes "services s = Some m" "m srv = Some sd"
    and "EndpointHandler (Some sd) me = Inr h"
    and "Decode (protocolHandler s) request = Inr (srv, me, p)"
    and "h p = Inr res"
    and "Encode (protocolHandler s) srv me res = Inr response"
  shows "iteration s (Inr (mt, request)) c =
     ((case write_result c of
        None \<Rightarrow> Reading
      | Some w \<Rightarrow> (case logger s of None \<Rightarrow> Panicked NilDereference | Some l \<Rightarrow> Closed)),
      s,
      c\<lparr>wr := tl (wr c),
        trace := trace c @
          [EvRead (Inr (mt, request)), EvDecode request, EvEndpointHandler srv me,
           EvHandler srv me p, EvEncode srv me res, EvWrite mt response (write_result c)] @
          (case write_result c of
             None \<Rightarrow> []
           | Some w \<Rightarrow> (case logger s of None \<Rightarrow> [] | Some l \<Rightarrow> [EvLog w, EvClose]))\<rparr>)"
  using assms
  by (simp add: iteration_def Let_def index_map_def respond_eq record_ev_def
      split: option.split del: EndpointHandler.simps)

text \<open>The echo handler and the payload "ping": one encoded response carrying "ping".\<close>

theorem iteration_dispatch_witness:
  "iteration echoServer (Inr (1, frame (CHR 0x01) (CHR 0x01) ''ping'')) idle =
     (Reading, echoServer,
      \<lparr>wr = [],
       trace = [EvRead (Inr (1, frame (CHR 0x01) (CHR 0x01) ''ping'')),
                EvDecode (frame (CHR 0x01) (CHR 0x01) ''ping''),
                EvEndpointHandler (CHR 0x01, CHR 0x00, CHR 0x00) (CHR 0x00, CHR 0x00, CHR 0x01),
                EvHandler (CHR 0x01, CHR 0x00, CHR 0x00) (CHR 0x00, CHR 0x00, CHR 0x01) ''ping'',
                EvEncode (CHR 0x01, CHR 0x00, CHR 0x00) (CHR 0x00, CHR 0x00, CHR 0x01) ''ping'',
                EvWrite 1 (frame (CHR 0x01) (CHR 0x01) ''ping'') None]\<rparr>)"
proof -
  have h1: "services echoServer = Some [(CHR 0x01, CHR 0x00, CHR 0x00) \<mapsto> echoService]"
    by (simp add: echoServer_def)
  have h2: "[(CHR 0x01, CHR 0x00, CHR 0x00) \<mapsto> echoService] (CHR 0x01, CHR 0x00, CHR 0x00) =
      Some echoService"
    by simp
  have h3: "EndpointHandler (Some echoService) (CHR 0x00, CHR 0x00, CHR 0x01) =
      Inr (\<lambda>p. Inr p)"
    by (simp add: echoService_def)
  have h4: "Decode (protocolHandler echoServer) (frame (CHR 0x01) (CHR 0x01) ''ping'') =
      Inr ((CHR 0x01, CHR 0x00, CHR 0x00), (CHR 0x00, CHR 0x00, CHR 0x01), ''ping'')"
    by (simp add: echoServer_def frameCodec_def frame_def)
  have h5: "(\<lambda>p. Inr p) ''ping'' = (Inr ''ping'' :: string + string)"
    by simp
  have h6: "Encode (protocolHandler echoServer) (CHR 0x01, CHR 0x00, CHR 0x00)
      (CHR 0x00, CHR 0x00, CHR 0x01) ''ping'' = Inr (frame (CHR 0x01) (CHR 0x01) ''ping'')"
    by (simp add: echoServer_def frameCodec_def frame_def ident_bytes_def)
  show ?thesis
    using iteration_dispatch [OF h1 h2 h3 h4 h5 h6, where mt = 1 and c = idle]
    by (simp add: idle_def write_result_def)
qed

text \<open>
  C4, as stated, on a connection that refuses the write: \<^verbatim>\<open>Decode\<close> fails on "abc",
  the report is written, the write fails, and the session logs the failure and
  closes the connection.
\<close>

theorem decode_failure_refused_write_counterexample:
  "Decode (protocolHandler echoServer) ''abc'' = Inl ''short message'' \<and>
   iteration echoServer (Inr (1, ''abc'')) broken =
     (Closed, echoServer,
      \<lparr>wr = [],
       trace = [EvRead (Inr (1, ''abc'')), EvDecode ''abc'',
                EvWrite 1 ''short message'' (Some ''broken pipe''),
                EvLog ''broken pipe'', EvClose]\<rparr>)"
  by (simp add: echoServer_def frameCodec_def broken_def write_result_def iteration_def
      Let_def respond_eq record_ev_def)

text \<open>
  C4, amended: when \<^verbatim>\<open>Decode\<close> fails with \<open>e\<close>, the iteration makes one write, of
  the bytes of \<open>e\<close> with the message type read, without a call of \<^verbatim>\<open>Encode\<close>. If the
  transport takes the write, nothing is closed, the session is \<open>Reading\<close>, and the
  loop goes on with the following messages as it would from that connection. If it
  refuses the write, the session does not go back to reading: with a logger it logs
  the failure and closes, with a nil logger it panics at the call of \<^verbatim>\<open>Log\<close>.
\<close>

theorem decode_failure_reported:
  assumes "Decode (protocolHandler s) request = Inl e"
  shows "iteration s (Inr (mt, request)) c =
     ((case write_result c of
        None \<Rightarrow> Reading
      | Some w \<Rightarrow> (case logger s of None \<Rightarrow> Panicked NilDereference | Some l \<Rightarrow> Closed)),
      s,
      c\<lparr>wr := tl (wr c),
        trace := trace c @
          [EvRead (Inr (mt, request)),
           EvDecode request,
           EvWrite mt e (write_result c)] @
          (case write_result c of
             None \<Rightarrow> []
           | Some w \<Rightarrow> (case logger s of None \<Rightarrow> [] | Some l \<Rightarrow> [EvLog w, EvClose]))\<rparr>)
   \<and> (write_result c = None \<longrightarrow>
        handleConnection s (Inr (mt, request) # rs) c =
        handleConnection s rs
          (c\<lparr>wr := tl (wr c),
             trace := trace c @
               [EvRead (Inr (mt, request)),
              EvDecode request,
                EvWrite mt e None]\<rparr>))"
  using assms
  by (simp add: iteration_def Let_def respond_eq record_ev_def split: option.split)

text \<open>A message too short to decode, then "ping": one raw report, then the echo.\<close>

theorem decode_failure_reported_witness:
  "handleConnection echoServer
     [Inr (1, ''abc''), Inr (2, frame (CHR 0x01) (CHR 0x01) ''ping'')] idle =
     (Reading, echoServer,
      \<lparr>wr = [],
       trace = [EvRead (Inr (1, ''abc'')), EvDecode ''abc'', EvWrite 1 ''short message'' None,
                EvRead (Inr (2, frame (CHR 0x01) (CHR 0x01) ''ping'')),
                EvDecode (frame (CHR 0x01) (CHR 0x01) ''ping''),
                EvEndpointHandler (CHR 0x01, CHR 0x00, CHR 0x00) (CHR 0x00, CHR 0x00, CHR 0x01),
                EvHandler (CHR 0x01, CHR 0x00, CHR 0x00) (CHR 0x00, CHR 0x00, CHR 0x01) ''ping'',
                EvEncode (CHR 0x01, CHR 0x00, CHR 0x00) (CHR 0x00, CHR 0x00, CHR 0x01) ''ping'',
                EvWrite 2 (frame (CHR 0x01) (CHR 0x01) ''ping'') None]\<rparr>)"
proof -
  have h1: "Decode (protocolHandler echoServer) ''abc'' = Inl ''short message''"
    by (simp add: echoServer_def frameCodec_def)
  have h2: "write_result idle = None"
    by (simp add: idle_def write_result_def)
  have step: "handleConnection echoServer
      [Inr (1, ''abc''), Inr (2, frame (CHR 0x01) (CHR 0x01) ''ping'')] idle =
    handleConnection echoServer [Inr (2, frame (CHR 0x01) (CHR 0x01) ''ping'')]
      (idle\<lparr>wr := tl (wr idle),
         trace := trace idle @
           [EvRead (Inr (1, ''abc'')), EvDecode ''abc'', EvWrite 1 ''short message'' None]\<rparr>)"
    using decode_failure_reported [OF h1, where mt = 1 and c = idle
        and rs = "[Inr (2, frame (CHR 0x01) (CHR 0x01) ''ping'')]"] h2
    by blast
  show ?thesis
    unfolding step
    by (simp add: echoServer_def echoService_def frameCodec_def frame_def idle_def
        ident_bytes_def index_map_def write_result_def iteration_def Let_def respond_eq
        record_ev_def)
qed

text \<open>
  C6, as stated, on a connection that refuses the write: the handler of method
  00 00 02 returns an error, the report is written, the write fails, and the session
  logs the failure and closes the connection instead of remaining open.
\<close>

theorem handler_error_refused_write_counterexample:
  "EndpointHandler (index_map (services echoServer) (CHR 0x01, CHR 0x00, CHR 0x00))
      (CHR 0x00, CHR 0x00, CHR 0x02) = Inr (\<lambda>p. Inl ''handler failed'') \<and>
   iteration echoServer (Inr (1, frame (CHR 0x01) (CHR 0x02) ''ping'')) broken =
     (Closed, echoServer,
      \<lparr>wr = [],
       trace = [EvRead (Inr (1, frame (CHR 0x01) (CHR 0x02) ''ping'')),
                EvDecode (frame (CHR 0x01) (CHR 0x02) ''ping''),
                EvEndpointHandler (CHR 0x01, CHR 0x00, CHR 0x00) (CHR 0x00, CHR 0x00, CHR 0x02),
                EvHandler (CHR 0x01, CHR 0x00, CHR 0x00) (CHR 0x00, CHR 0x00, CHR 0x02) ''ping'',
                EvWrite 1 ''handler failed'' (Some ''broken pipe''),
                EvLog ''broken pipe'', EvClose]\<rparr>)"
  by (simp add: echoServer_def echoService_def frameCodec_def frame_def broken_def
      index_map_def write_result_def iteration_def Let_def respond_eq record_ev_def)

text \<open>
  C6, amended: when the handler resolved for the message returns the error \<open>e\<close>, the
  iteration makes one write, of the bytes of \<open>e\<close> itself with the message type read.
  If the transport takes the write, nothing is closed, the session is \<open>Reading\<close> and
  the loop goes on with the following messages. If it refuses the write, the session
  does not go back to reading: with a logger it logs the failure and closes, with a
  nil logger it panics at the call of \<^verbatim>\<open>Log\<close>.
\<close>

theorem handler_error_reported:
  assumes "services s = Some m" "m srv = Some sd"
    and "EndpointHandler (Some sd) me = Inr h"
    and "Decode (protocolHandler s) request = Inr (srv, me, p)"
    and "h p = Inl e"
  shows "iteration s (Inr (mt, request)) c =
     ((case write_result c of
        None \<Rightarrow> Reading
      | Some w \<Rightarrow> (case logger s of None \<Rightarrow> Panicked NilDereference | Some l \<Rightarrow> Closed)),
      s,
      c\<lparr>wr := tl (wr c),
        trace := trace c @
          [EvRead (Inr (mt, request)),
           EvDecode request,
           EvEndpointHandler srv me,
           EvHandler srv me p,
           EvWrite mt e (write_result c)] @
          (case write_result c of
             None \<Rightarrow> []
           | Some w \<Rightarrow> (case logger s of None \<Rightarrow> [] | Some l \<Rightarrow> [EvLog w, EvClose]))\<rparr>)
   \<and> (write_result c = None \<longrightarrow>
        handleConnection s (Inr (mt, request) # rs) c =
        handleConnection s rs
          (c\<lparr>wr := tl (wr c),
             trace := trace c @
               [EvRead (Inr (mt, request)),
              EvDecode request,
              EvEndpointHandler srv me,
              EvHandler srv me p,
                EvWrite mt e None]\<rparr>))"
  using assms
  by (simp add: iteration_def Let_def index_map_def respond_eq record_ev_def
      split: option.split del: EndpointHandler.simps)

theorem handler_error_reported_witness:
  "iteration echoServer (Inr (1, frame (CHR 0x01) (CHR 0x02) ''ping'')) idle =
     (Reading, echoServer,
      \<lparr>wr = [],
       trace = [EvRead (Inr (1, frame (CHR 0x01) (CHR 0x02) ''ping'')),
                EvDecode (frame (CHR 0x01) (CHR 0x02) ''ping''),
                EvEndpointHandler (CHR 0x01, CHR 0x00, CHR 0x00) (CHR 0x00, CHR 0x00, CHR 0x02),
                EvHandler (CHR 0x01, CHR 0x00, CHR 0x00) (CHR 0x00, CHR 0x00, CHR 0x02) ''ping'',
                EvWrite 1 ''handler failed'' None]\<rparr>) \<and>
   handleConnection echoServer [Inr (1, frame (CHR 0x01) (CHR 0x02) ''ping'')] idle =
     (Reading, echoServer,
      \<lparr>wr = [],
       trace = [EvRead (Inr (1, frame (CHR 0x01) (CHR 0x02) ''ping'')),
                EvDecode (frame (CHR 0x01) (CHR 0x02) ''ping''),
                EvEndpointHandler (CHR 0x01, CHR 0x00, CHR 0x00) (CHR 0x00, CHR 0x00, CHR 0x02),
                EvHandler (CHR 0x01, CHR 0x00, CHR 0x00) (CHR 0x00, CHR 0x00, CHR 0x02) ''ping'',
                EvWrite 1 ''handler failed'' None]\<rparr>)"
proof -
  have h1: "services echoServer = Some [(CHR 0x01, CHR 0x00, CHR 0x00) \<mapsto> echoService]"
    by (simp add: echoServer_def)
  have h2: "[(CHR 0x01, CHR 0x00, CHR 0x00) \<mapsto> echoService] (CHR 0x01, CHR 0x00, CHR 0x00) =
      Some echoService"
    by simp
  have h3: "EndpointHandler (Some echoService) (CHR 0x00, CHR 0x00, CHR 0x02) =
      Inr (\<lambda>p. Inl ''handler failed'')"
    by (simp add: echoService_def)
  have h4: "Decode (protocolHandler echoServer) (frame (CHR 0x01) (CHR 0x02) ''ping'') =
      Inr ((CHR 0x01, CHR 0x00, CHR 0x00), (CHR 0x00, CHR 0x00, CHR 0x02), ''ping'')"
    by (simp add: echoServer_def frameCodec_def frame_def)
  have h5: "(\<lambda>p. Inl ''handler failed'') ''ping'' = (Inl ''handler failed'' :: string + string)"
    by simp
  have h6: "write_result idle = None"
    by (simp add: idle_def write_result_def)
  show ?thesis
    using handler_error_reported [OF h1 h2 h3 h4 h5, where mt = 1 and c = idle and rs = "[]"] h6
    by (simp add: idle_def)
qed

text \<open>
  C7, as stated, on a connection that refuses the write: the echo of the empty
  payload cannot be encoded, the report is written, the write fails, and the session
  logs the failure and closes the connection instead of staying open.
\<close>

theorem encode_failure_refused_write_counterexample:
  "Encode (protocolHandler echoServer) (CHR 0x01, CHR 0x00, CHR 0x00)
      (CHR 0x00, CHR 0x00, CHR 0x01) [] = Inl ''empty result'' \<and>
   iteration echoServer (Inr (1, frame (CHR 0x01) (CHR 0x01) [])) broken =
     (Closed, echoServer,
      \<lparr>wr = [],
       trace = [EvRead (Inr (1, frame (CHR 0x01) (CHR 0x01) [])),
                EvDecode (frame (CHR 0x01) (CHR 0x01) []),
                EvEndpointHandler (CHR 0x01, CHR 0x00, CHR 0x00) (CHR 0x00, CHR 0x00, CHR 0x01),
                EvHandler (CHR 0x01, CHR 0x00, CHR 0x00) (CHR 0x00, CHR 0x00, CHR 0x01) [],
                EvEncode (CHR 0x01, CHR 0x00, CHR 0x00) (CHR 0x00, CHR 0x00, CHR 0x01) [],
                EvWrite 1 ''empty result'' (Some ''broken pipe''),
                EvLog ''broken pipe'', EvClose]\<rparr>)"
  by (simp add: echoServer_def echoService_def frameCodec_def frame_def broken_def
      index_map_def write_result_def iteration_def Let_def respond_eq record_ev_def)

text \<open>
  C7, amended: when the handler returns \<open>res\<close> and \<^verbatim>\<open>Encode\<close> of it fails with \<open>e\<close>,
  the iteration makes one write, of the bytes of \<open>e\<close> with the message type read
  (\<^verbatim>\<open>Encode\<close> is called once, for \<open>res\<close>, and not for the report). If the transport
  takes the write, nothing is closed, the session is \<open>Reading\<close> and the loop goes on
  with the following messages. If it refuses the write, the session does not go back
  to reading: with a logger it logs the failure and closes, with a nil logger it
  panics at the call of \<^verbatim>\<open>Log\<close>.
\<close>

theorem encode_failure_reported:
  assumes "services s = Some m" "m srv = Some sd"
    and "EndpointHandler (Some sd) me = Inr h"
    and "Decode (protocolHandler s) request = Inr (srv, me, p)"
    and "h p = Inr res"
    and "Encode (protocolHandler s) srv me res = Inl e"
  shows "iteration s (Inr (mt, request)) c =
     ((case write_result c of
        None \<Rightarrow> Reading
      | Some w \<Rightarrow> (case logger s of None \<Rightarrow> Panicked NilDereference | Some l \<Rightarrow> Closed)),
      s,
      c\<lparr>wr := tl (wr c),
        trace := trace c @
          [EvRead (Inr (mt, request)),
           EvDecode request,
           EvEndpointHandler srv me,
           EvHandler srv me p,
           EvEncode srv me res,
           EvWrite mt e (write_result c)] @
          (case write_result c of
             None \<Rightarrow> []
           | Some w \<Rightarrow> (case logger s of None \<Rightarrow> [] | Some l \<Rightarrow> [EvLog w, EvClose]))\<rparr>)
   \<and> (write_result c = None \<longrightarrow>
        handleConnection s (Inr (mt, request) # rs) c =
        handleConnection s rs
          (c\<lparr>wr := tl (wr c),
             trace := trace c @
               [EvRead (Inr (mt, request)),
              EvDecode request,
              EvEndpointHandler srv me,
              EvHandler srv me p,
              EvEncode srv me res,
                EvWrite mt e None]\<rparr>))"
  using assms
  by (simp add: iteration_def Let_def index_map_def respond_eq record_ev_def
      split: option.split del: EndpointHandler.simps)

theorem encode_failure_reported_witness:
  "iteration echoServer (Inr (1, frame (CHR 0x01) (CHR 0x01) [])) idle =
     (Reading, echoServer,
      \<lparr>wr = [],
       trace = [EvRead (Inr (1, frame (CHR 0x01) (CHR 0x01) [])),
                EvDecode (frame (CHR 0x01) (CHR 0x01) []),
                EvEndpointHandler (CHR 0x01, CHR 0x00, CHR 0x00) (CHR 0x00, CHR 0x00, CHR 0x01),
                EvHandler (CHR 0x01, CHR 0x00, CHR 0x00) (CHR 0x00, CHR 0x00, CHR 0x01) [],
                EvEncode (CHR 0x01, CHR 0x00, CHR 0x00) (CHR 0x00, CHR 0x00, CHR 0x01) [],
                EvWrite 1 ''empty result'' None]\<rparr>) \<and>
   handleConnection echoServer [Inr (1, frame (CHR 0x01) (CHR 0x01) [])] idle =
     (Reading, echoServer,
      \<lparr>wr = [],
       trace = [EvRead (Inr (1, frame (CHR 0x01) (CHR 0x01) [])),
                EvDecode (frame (CHR 0x01) (CHR 0x01) []),
                EvEndpointHandler (CHR 0x01, CHR 0x00, CHR 0x00) (CHR 0x00, CHR 0x00, CHR 0x01),
                EvHandler (CHR 0x01, CHR 0x00, CHR 0x00) (CHR 0x00, CHR 0x00, CHR 0x01) [],
                EvEncode (CHR 0x01, CHR 0x00, CHR 0x00) (CHR 0x00, CHR 0x00, CHR 0x01) [],
                EvWrite 1 ''empty result'' None]\<rparr>)"
proof -
  have h1: "services echoServer = Some [(CHR 0x01, CHR 0x00, CHR 0x00) \<mapsto> echoService]"
    by (simp add: echoServer_def)
  have h2: "[(CHR 0x01, CHR 0x00, CHR 0x00) \<mapsto> echoService] (CHR 0x01, CHR 0x00, CHR 0x00) =
      Some echoService"
    by simp
  have h3: "EndpointHandler (Some echoService) (CHR 0x00, CHR 0x00, CHR 0x01) =
      Inr (\<lambda>p. Inr p)"
    by (simp add: echoService_def)
  have h4: "Decode (protocolHandler echoServer) (frame (CHR 0x01) (CHR 0x01) []) =
      Inr ((CHR 0x01, CHR 0x00, CHR 0x00), (CHR 0x00, CHR 0x00, CHR 0x01), [])"
    by (simp add: echoServer_def frameCodec_def frame_def)
  have h5: "(\<lambda>p. Inr p) [] = (Inr [] :: string + string)"
    by simp
  have h6: "Encode (protocolHandler echoServer) (CHR 0x01, CHR 0x00, CHR 0x00)
      (CHR 0x00, CHR 0x00, CHR 0x01) [] = Inl ''empty result''"
    by (simp add: echoServer_def frameCodec_def)
  have h7: "write_result idle = None"
    by (simp add: idle_def write_result_def)
  show ?thesis
    using encode_failure_reported [OF h1 h2 h3 h4 h5 h6, where mt = 1 and c = idle
        and rs = "[]"] h7
    by (simp add: idle_def)
qed

subsection \<open>The whole session\<close>

text \<open>
  C5, as stated, on the server \<^verbatim>\<open>NewServer\<close> returns for a nil logger: the report of
  a decode failure is written, the write fails, and the call of \<^verbatim>\<open>Log\<close> on the nil
  logger panics before \<^verbatim>\<open>conn.Close()\<close>: the connection is not closed and the
  session is not \<open>Closed\<close>.
\<close>

theorem write_failure_nil_logger_counterexample:
  "logger (NewServer frameCodec None :: string Server) = None \<and>
   handleConnection (NewServer frameCodec None)
     [Inr (1, ''abc''), Inr (1, frame (CHR 0x01) (CHR 0x01) ''ping'')] broken =
     (Panicked NilDereference, NewServer frameCodec None,
      \<lparr>wr = [],
       trace = [EvRead (Inr (1, ''abc'')), EvDecode ''abc'',
                EvWrite 1 ''short message'' (Some ''broken pipe'')]\<rparr>)"
  by (simp add: NewServer_def frameCodec_def broken_def write_result_def iteration_def
      Let_def respond_eq record_ev_def)

text \<open>
  C5, amended: in a session of a server whose logger is not nil that starts from a
  connection without a refused write, once a write is refused (the write of an
  encoded response or of an error report alike) the session is \<open>Closed\<close>, and its
  trace ends with that write, the log of its error and the close: no read and no
  write comes after it.
\<close>

theorem write_failure_terminal:
  assumes "logger s = Some l"
    and "\<not> list_ex failed_write (trace c)"
    and "list_ex failed_write (trace (snd (snd (handleConnection s rs c))))"
  shows "fst (handleConnection s rs c) = Closed \<and>
         closed_by_failed_write (trace (snd (snd (handleConnection s rs c))))"
  using assms by (rule handleConnection_failed_write)

text \<open>
  Two messages on a connection whose first write fails, the write of the encoded
  response in one run and of the raw report of a decode failure in the other: the
  second message is never read.
\<close>

theorem write_failure_terminal_witness:
  "handleConnection echoServer
     [Inr (1, frame (CHR 0x01) (CHR 0x01) ''ping''),
      Inr (1, frame (CHR 0x01) (CHR 0x01) ''ping'')] broken =
     (Closed, echoServer,
      \<lparr>wr = [],
       trace = [EvRead (Inr (1, frame (CHR 0x01) (CHR 0x01) ''ping'')),
                EvDecode (frame (CHR 0x01) (CHR 0x01) ''ping''),
                EvEndpointHandler (CHR 0x01, CHR 0x00, CHR 0x00) (CHR 0x00, CHR 0x00, CHR 0x01),
                EvHandler (CHR 0x01, CHR 0x00, CHR 0x00) (CHR 0x00, CHR 0x00, CHR 0x01) ''ping'',
                EvEncode (CHR 0x01, CHR 0x00, CHR 0x00) (CHR 0x00, CHR 0x00, CHR 0x01) ''ping'',
                EvWrite 1 (frame (CHR 0x01) (CHR 0x01) ''ping'') (Some ''broken pipe''),
                EvLog ''broken pipe'', EvClose]\<rparr>) \<and>
   closed_by_failed_write
     (trace (snd (snd (handleConnection echoServer
        [Inr (1, frame (CHR 0x01) (CHR 0x01) ''ping''),
         Inr (1, frame (CHR 0x01) (CHR 0x01) ''ping'')] broken)))) \<and>
   handleConnection echoServer
     [Inr (1, ''abc''), Inr (1, frame (CHR 0x01) (CHR 0x01) ''ping'')] broken =
     (Closed, echoServer,
      \<lparr>wr = [],
       trace = [EvRead (Inr (1, ''abc'')), EvDecode ''abc'',
                EvWrite 1 ''short message'' (Some ''broken pipe''),
                EvLog ''broken pipe'', EvClose]\<rparr>) \<and>
   closed_by_failed_write
     (trace (snd (snd (handleConnection echoServer
        [Inr (1, ''abc''), Inr (1, frame (CHR 0x01) (CHR 0x01) ''ping'')] broken))))"
proof -
  have run: "handleConnection echoServer
     [Inr (1, frame (CHR 0x01) (CHR 0x01) ''ping''),
      Inr (1, frame (CHR 0x01) (CHR 0x01) ''ping'')] broken =
     (Closed, echoServer,
      \<lparr>wr = [],
       trace = [EvRead (Inr (1, frame (CHR 0x01) (CHR 0x01) ''ping'')),
                EvDecode (frame (CHR 0x01) (CHR 0x01) ''ping''),
                EvEndpointHandler (CHR 0x01, CHR 0x00, CHR 0x00) (CHR 0x00, CHR 0x00, CHR 0x01),
                EvHandler (CHR 0x01, CHR 0x00, CHR 0x00) (CHR 0x00, CHR 0x00, CHR 0x01) ''ping'',
                EvEncode (CHR 0x01, CHR 0x00, CHR 0x00) (CHR 0x00, CHR 0x00, CHR 0x01) ''ping'',
                EvWrite 1 (frame (CHR 0x01) (CHR 0x01) ''ping'') (Some ''broken pipe''),
                EvLog ''broken pipe'', EvClose]\<rparr>)"
    by (simp add: echoServer_def echoService_def frameCodec_def frame_def broken_def
        ident_bytes_def index_map_def write_result_def iteration_def Let_def respond_eq
        record_ev_def)
  have raw: "handleConnection echoServer
     [Inr (1, ''abc''), Inr (1, frame (CHR 0x01) (CHR 0x01) ''ping'')] broken =
     (Closed, echoServer,
      \<lparr>wr = [],
       trace = [EvRead (Inr (1, ''abc'')), EvDecode ''abc'',
                EvWrite 1 ''short message'' (Some ''broken pipe''),
                EvLog ''broken pipe'', EvClose]\<rparr>)"
    by (simp add: echoServer_def frameCodec_def broken_def write_result_def iteration_def
        Let_def respond_eq record_ev_def)
  have h0: "logger echoServer = Some Logger"
    by (simp add: echoServer_def)
  have h1: "\<not> list_ex failed_write (trace broken)"
    by (simp add: broken_def)
  have h2: "list_ex failed_write (trace (snd (snd (handleConnection echoServer
     [Inr (1, frame (CHR 0x01) (CHR 0x01) ''ping''),
      Inr (1, frame (CHR 0x01) (CHR 0x01) ''ping'')] broken))))"
    unfolding run by simp
  have h3: "list_ex failed_write (trace (snd (snd (handleConnection echoServer
     [Inr (1, ''abc''), Inr (1, frame (CHR 0x01) (CHR 0x01) ''ping'')] broken))))"
    unfolding raw by simp
  show ?thesis
    using write_failure_terminal [OF h0 h1 h2] write_failure_terminal [OF h0 h1 h3]
    unfolding run raw by simp
qed

text \<open>
  C8: neither one iteration nor the whole session changes the services map, whatever
  the message (read error, malformed, unknown or known service) and whatever the
  outcome.
\<close>

theorem registry_unchanged:
  "services (fst (snd (iteration s r c))) = services s \<and>
   services (fst (snd (handleConnection s rs c))) = services s"
  by (simp add: iteration_server handleConnection_server)

text \<open>
  C10: in a session on a fresh connection, every write (the encoded response and each
  raw report) carries the message type of the message read last before it, which is
  the message it answers.
\<close>

theorem writes_keep_message_type:
  "writes_follow_read None
     (trace (snd (snd (handleConnection s rs \<lparr>wr = ws, trace = []\<rparr>))))"
  by (rule handleConnection_writes_follow_read) simp

end
